theory Spec2Isabelle
  imports Main "HOL-Library.Sublist"
begin

section \<open>Python values and errors\<close>

text \<open>
  The exceptions the program can raise. \<open>SystemExit\<close> is what argparse raises after a
  usage error (status 2); \<open>LoadError\<close> stands for any failure of reading or parsing the
  input file.
\<close>

datatype py_error = AttributeError | TypeError | ValueError string | SystemExit nat | LoadError


text \<open>
  What \<^verbatim>\<open>yaml.safe_load\<close> returns: null, booleans, integers, strings, sequences and
  mappings. A mapping is an association list read with \<open>map_of\<close>, its keys strings (the
  program looks up string keys only). Floats, timestamps and binary scalars are not
  modelled.
\<close>

datatype yaml = YNone | YBool bool | YInt int | YStr string
  | YList "yaml list" | YDict "(string \<times> yaml) list"

type_synonym dict = "(string \<times> yaml) list"

text \<open>
  A \<open>string\<close> is the UTF-8 encoding of the Python text. \<open>py_lower\<close> and
  \<open>py_strip\<close> below are Python's \<^verbatim>\<open>str.lower\<close> and \<^verbatim>\<open>str.strip\<close> on ASCII text;
  they leave the bytes of other characters alone.
\<close>

abbreviation LF :: char where "LF \<equiv> CHR 0x0A"
abbreviation CR :: char where "CR \<equiv> CHR 0x0D"

text \<open>Truth value of an object, as in \<^verbatim>\<open>if v:\<close>, \<^verbatim>\<open>not v\<close> and \<^verbatim>\<open>v or []\<close>.\<close>

fun truthy :: "yaml \<Rightarrow> bool" where
  "truthy YNone = False"
| "truthy (YBool b) = b"
| "truthy (YInt i) = (i \<noteq> 0)"
| "truthy (YStr s) = (s \<noteq> [])"
| "truthy (YList xs) = (xs \<noteq> [])"
| "truthy (YDict kvs) = (kvs \<noteq> [])"

text \<open>\<^verbatim>\<open>v or []\<close>\<close>

definition or_empty :: "yaml \<Rightarrow> yaml" where
  "or_empty v = (if truthy v then v else YList [])"

text \<open>\<^verbatim>\<open>d.get(k)\<close> and \<^verbatim>\<open>d.get(k, default)\<close> on a dict.\<close>

definition dget :: "dict \<Rightarrow> string \<Rightarrow> yaml" where
  "dget d k = (case map_of d k of None \<Rightarrow> YNone | Some v \<Rightarrow> v)"

definition dget_default :: "dict \<Rightarrow> string \<Rightarrow> yaml \<Rightarrow> yaml" where
  "dget_default d k dflt = (case map_of d k of None \<Rightarrow> dflt | Some v \<Rightarrow> v)"

text \<open>
  The elements a \<^verbatim>\<open>for\<close> loop visits: those of a list, the characters of a string, the
  keys of a dict; the other objects are not iterable. (A string is visited byte by byte
  here; every loop of the program calls \<^verbatim>\<open>get\<close> on the element first, which fails on
  the first character whatever it is.)
\<close>

fun py_iter :: "yaml \<Rightarrow> py_error + yaml list" where
  "py_iter (YList xs) = Inr xs"
| "py_iter (YStr s) = Inr (map (\<lambda>c. YStr [c]) s)"
| "py_iter (YDict kvs) = Inr (map (\<lambda>kv. YStr (fst kv)) kvs)"
| "py_iter v = Inl TypeError"

subsection \<open>Strings\<close>


definition lower_char :: "char \<Rightarrow> char" where
  "lower_char c =
     (case map_of (zip ''ABCDEFGHIJKLMNOPQRSTUVWXYZ'' ''abcdefghijklmnopqrstuvwxyz'') c of
        None \<Rightarrow> c | Some d \<Rightarrow> d)"

definition py_lower :: "string \<Rightarrow> string" where
  "py_lower s = map lower_char s"

text \<open>The ASCII characters \<^verbatim>\<open>str.isspace\<close> accepts: 0x09-0x0D, 0x1C-0x1F and the blank.\<close>

definition is_space :: "char \<Rightarrow> bool" where
  "is_space c = (c \<in> set [CHR 0x09, CHR 0x0A, CHR 0x0B, CHR 0x0C, CHR 0x0D,
                            CHR 0x1C, CHR 0x1D, CHR 0x1E, CHR 0x1F, CHR 0x20])"

definition py_strip :: "string \<Rightarrow> string" where
  "py_strip s = rev (dropWhile is_space (rev (dropWhile is_space s)))"

text \<open>\<^verbatim>\<open>s.replace("\r\n", "\n")\<close>\<close>

fun replace_crlf :: "string \<Rightarrow> string" where
  "replace_crlf (c # d # s) =
     (if c = CR \<and> d = LF then LF # replace_crlf s else c # replace_crlf (d # s))"
| "replace_crlf s = s"

text \<open>\<^verbatim>\<open>sep.join(xs)\<close>\<close>

fun py_join :: "string \<Rightarrow> string list \<Rightarrow> string" where
  "py_join sep [] = []"
| "py_join sep [x] = x"
| "py_join sep (x # y # ys) = x @ sep @ py_join sep (y # ys)"



subsection \<open>\<^verbatim>\<open>str()\<close> of a value\<close>

definition digit_char :: "nat \<Rightarrow> char" where
  "digit_char d = ''0123456789'' ! d"

fun show_nat :: "nat \<Rightarrow> string" where
  "show_nat n = (if n < 10 then [digit_char n] else show_nat (n div 10) @ [digit_char (n mod 10)])"

definition show_int :: "int \<Rightarrow> string" where
  "show_int i = (if i < 0 then CHR ''-'' # show_nat (nat (- i)) else show_nat (nat i))"

definition hex_digit :: "nat \<Rightarrow> char" where
  "hex_digit d = ''0123456789abcdef'' ! d"

text \<open>
  \<^verbatim>\<open>repr\<close> of a string: double quotes when the text holds a single quote and no double
  quote, single quotes otherwise; the quote and the backslash are escaped, control
  characters are written \<^verbatim>\<open>\t\<close>, \<^verbatim>\<open>\n\<close>, \<^verbatim>\<open>\r\<close> or \<^verbatim>\<open>\xhh\<close>.
\<close>

definition repr_char :: "char \<Rightarrow> char \<Rightarrow> string" where
  "repr_char quote c =
     (let n = (of_char c :: nat) in
      if c = quote \<or> c = CHR 0x5C then [CHR 0x5C, c]
      else if c = CHR 0x09 then [CHR 0x5C, CHR ''t'']
      else if c = LF then [CHR 0x5C, CHR ''n'']
      else if c = CR then [CHR 0x5C, CHR ''r'']
      else if n < 32 \<or> n = 127 then [CHR 0x5C, CHR ''x'', hex_digit (n div 16), hex_digit (n mod 16)]
      else [c])"

definition repr_str :: "string \<Rightarrow> string" where
  "repr_str s =
     (let quote = (if CHR 0x27 \<in> set s \<and> CHR 0x22 \<notin> set s then CHR 0x22 else CHR 0x27)
      in [quote] @ concat (map (repr_char quote) s) @ [quote])"

fun py_repr :: "yaml \<Rightarrow> string" where
  "py_repr YNone = ''None''"
| "py_repr (YBool b) = (if b then ''True'' else ''False'')"
| "py_repr (YInt i) = show_int i"
| "py_repr (YStr s) = repr_str s"
| "py_repr (YList xs) = ''['' @ py_join '', '' (map py_repr xs) @ '']''"
| "py_repr (YDict kvs) =
     ''{'' @ py_join '', '' (map (\<lambda>(k, v). repr_str k @ '': '' @ py_repr v) kvs) @ ''}''"

definition py_str :: "yaml \<Rightarrow> string" where
  "py_str v = (case v of YStr s \<Rightarrow> s | _ \<Rightarrow> py_repr v)"

section \<open>Tags and text\<close>

text \<open>\<^verbatim>\<open>norm_tags\<close> (lines 16-23).\<close>

definition norm_tags :: "yaml \<Rightarrow> string set" where
  "norm_tags tags =
     (case tags of
        YNone \<Rightarrow> {}
      | YStr s \<Rightarrow> {py_strip (py_lower s)}
      | YList ts \<Rightarrow> set (map (\<lambda>t. py_strip (py_lower (py_str t))) ts)
      | _ \<Rightarrow> {py_strip (py_lower (py_str tags))})"

text \<open>
  \<^verbatim>\<open>md_escape\<close> (lines 47-48) on a string. Most callers pass \<^verbatim>\<open>str(...)\<close>; the header,
  summary and skills renderers pass the document's value as it is, and then a value
  that is not a string has no \<^verbatim>\<open>replace\<close> attribute: \<open>md_escape_any\<close>.
\<close>

definition md_escape :: "string \<Rightarrow> string" where
  "md_escape s = py_strip (replace_crlf s)"

definition md_escape_any :: "yaml \<Rightarrow> py_error + string" where
  "md_escape_any v = (case v of YStr s \<Rightarrow> Inr (md_escape s) | _ \<Rightarrow> Inl AttributeError)"

section \<open>The tag filter\<close>

text \<open>
  \<^verbatim>\<open>bullet_included\<close> (lines 26-44). A Python set is falsy exactly when it is empty, and
  \<^verbatim>\<open>bool(a & b)\<close> is true exactly when the intersection is not empty.
\<close>

definition bullet_included ::
  "string set \<Rightarrow> string set \<Rightarrow> string set \<Rightarrow> string \<Rightarrow> py_error + bool" where
  "bullet_included bullet_tags include exclude mode =
     (if exclude \<noteq> {} \<and> bullet_tags \<inter> exclude \<noteq> {} then Inr False
      else if include = {} then Inr True
      else if mode = ''any'' then Inr (bullet_tags \<inter> include \<noteq> {})
      else if mode = ''all'' then Inr (include \<subseteq> bullet_tags)
      else Inl (ValueError (''Unknown mode: '' @ mode)))"


section \<open>Section renderers\<close>

text \<open>
  A loop whose body can raise: the results of the body in order, or the first error.
\<close>

fun map_res :: "('a \<Rightarrow> py_error + 'b) \<Rightarrow> 'a list \<Rightarrow> py_error + 'b list" where
  "map_res f [] = Inr []"
| "map_res f (x # xs) =
     (case f x of Inl e \<Rightarrow> Inl e
      | Inr y \<Rightarrow> (case map_res f xs of Inl e \<Rightarrow> Inl e | Inr ys \<Rightarrow> Inr (y # ys)))"

text \<open>\<^verbatim>\<open>render_header\<close> (lines 51-64). The separator of the contact line is a bullet
  character (U+2022) between two blanks.\<close>

definition contact_sep :: string where
  "contact_sep = [CHR 0x20, CHR 0xE2, CHR 0x80, CHR 0xA2, CHR 0x20]"

definition render_header :: "dict \<Rightarrow> py_error + string" where
  "render_header data =
     (case md_escape_any (dget_default data ''name'' (YStr '''')) of
        Inl e \<Rightarrow> Inl e
      | Inr name \<Rightarrow>
          (let contact_bits =
                 map (\<lambda>v. md_escape (py_str v))
                   (filter truthy (map (dget data) [''location'', ''phone'', ''email'']))
           in Inr (py_join [LF]
                 ([py_strip (''# '' @ name), '''', ''----'', [LF]]
                  @ (if contact_bits \<noteq> [] then [''### '' @ py_join contact_sep contact_bits] else [])
                  @ ['''']))))"

text \<open>\<^verbatim>\<open>render_summary\<close> (lines 67-71).\<close>

definition render_summary :: "dict \<Rightarrow> py_error + string" where
  "render_summary data =
     (let summary = dget data ''summary'' in
      if \<not> truthy summary then Inr ''''
      else (case md_escape_any summary of
              Inl e \<Rightarrow> Inl e
            | Inr text \<Rightarrow> Inr (py_join [LF] [text, [LF]])))"

text \<open>\<^verbatim>\<open>render_skills\<close> (lines 74-84); \<open>skill_line\<close> is the body of its loop.\<close>

definition skill_line :: "yaml \<Rightarrow> py_error + string" where
  "skill_line s =
     (case s of
        YDict sd \<Rightarrow>
          (case md_escape_any (dget sd ''header'') of
             Inl e \<Rightarrow> Inl e
           | Inr header \<Rightarrow>
               (case md_escape_any (dget sd ''skill'') of
                  Inl e \<Rightarrow> Inl e
                | Inr skill \<Rightarrow>
                    Inr (''- **'' @ md_escape (py_str (YStr header)) @ ''** ''
                           @ md_escape (py_str (YStr skill)))))
      | _ \<Rightarrow> Inl AttributeError)"

definition render_skills :: "dict \<Rightarrow> py_error + string" where
  "render_skills data =
     (let skills = or_empty (dget data ''skills'') in
      if \<not> truthy skills then Inr ''''
      else (case py_iter skills of
              Inl e \<Rightarrow> Inl e
            | Inr ss \<Rightarrow>
                (case map_res skill_line ss of
                   Inl e \<Rightarrow> Inl e
                 | Inr ls \<Rightarrow>
                     Inr (py_join [LF]
                       ([''## Technical Skills'', '''', ''----'', [LF]] @ ls @ [''''])))))"

text \<open>
  The bullets of a role or project (lines 106-111 and 138-143, the same loop twice):
  \<open>keep_bullet\<close> is the body of the loop, \<open>None\<close> for a bullet that is not kept. The
  \<^verbatim>\<open>and\<close> does not call \<^verbatim>\<open>bullet_included\<close> when the text is empty.
\<close>

definition keep_bullet ::
  "string set \<Rightarrow> string set \<Rightarrow> string \<Rightarrow> yaml \<Rightarrow> py_error + string option" where
  "keep_bullet include exclude mode b =
     (case b of
        YDict bd \<Rightarrow>
          (let text = md_escape (py_str (dget_default bd ''text'' (YStr '''')));
               tags = norm_tags (dget bd ''tags'')
           in if text = [] then Inr None
              else (case bullet_included tags include exclude mode of
                      Inl e \<Rightarrow> Inl e
                    | Inr ok \<Rightarrow> Inr (if ok then Some text else None)))
      | _ \<Rightarrow> Inl AttributeError)"

fun kept_bullets ::
  "string set \<Rightarrow> string set \<Rightarrow> string \<Rightarrow> yaml list \<Rightarrow> py_error + string list" where
  "kept_bullets include exclude mode [] = Inr []"
| "kept_bullets include exclude mode (b # bs) =
     (case keep_bullet include exclude mode b of
        Inl e \<Rightarrow> Inl e
      | Inr r \<Rightarrow>
          (case kept_bullets include exclude mode bs of
             Inl e \<Rightarrow> Inl e
           | Inr kept \<Rightarrow> Inr (case r of None \<Rightarrow> kept | Some text \<Rightarrow> text # kept)))"

text \<open>\<^verbatim>\<open>for b in entry.get("bullets") or []\<close>\<close>

definition entry_bullets ::
  "string set \<Rightarrow> string set \<Rightarrow> string \<Rightarrow> dict \<Rightarrow> py_error + string list" where
  "entry_bullets include exclude mode entry =
     (case py_iter (or_empty (dget entry ''bullets'')) of
        Inl e \<Rightarrow> Inl e
      | Inr bs \<Rightarrow> kept_bullets include exclude mode bs)"

text \<open>The lines written for the kept bullets (lines 113-117 and 145-149).\<close>

definition placeholder :: string where
  "placeholder = ''- (No bullets matched selected tags.)''"

definition bullet_lines :: "string list \<Rightarrow> string list" where
  "bullet_lines kept = (if kept \<noteq> [] then map (\<lambda>t. ''- '' @ t) kept else [placeholder])"

text \<open>\<^verbatim>\<open>render_experience\<close> (lines 87-120); \<open>render_role\<close> is the body of its loop, the
  lines one role adds to \<^verbatim>\<open>out\<close>. The dash of the heading is an em dash (U+2014).\<close>

definition em_dash :: string where
  "em_dash = [CHR 0xE2, CHR 0x80, CHR 0x94]"

definition role_heading :: "dict \<Rightarrow> string list" where
  "role_heading role =
     (let company = md_escape (py_str (dget_default role ''company'' (YStr '''')));
          title = md_escape (py_str (dget_default role ''title'' (YStr '''')));
          location = md_escape (py_str (dget_default role ''location'' (YStr '''')));
          dates = md_escape (py_str (dget_default role ''dates'' (YStr '''')));
          heading_company = py_strip (''**'' @ company @ '' '' @ em_dash @ '' '' @ title @ ''**'');
          heading_location = py_strip (location @ '' ('' @ dates @ '')'')
      in [heading_company, heading_location, ''''])"

definition render_role ::
  "string set \<Rightarrow> string set \<Rightarrow> string \<Rightarrow> yaml \<Rightarrow> py_error + string list" where
  "render_role include exclude mode role =
     (case role of
        YDict rd \<Rightarrow>
          (case entry_bullets include exclude mode rd of
             Inl e \<Rightarrow> Inl e
           | Inr kept \<Rightarrow> Inr (role_heading rd @ bullet_lines kept @ ['''']))
      | _ \<Rightarrow> Inl AttributeError)"

definition render_experience ::
  "dict \<Rightarrow> string set \<Rightarrow> string set \<Rightarrow> string \<Rightarrow> py_error + string" where
  "render_experience data include exclude mode =
     (let exp = or_empty (dget data ''experience'') in
      if \<not> truthy exp then Inr ''''
      else (case py_iter exp of
              Inl e \<Rightarrow> Inl e
            | Inr roles \<Rightarrow>
                (case map_res (render_role include exclude mode) roles of
                   Inl e \<Rightarrow> Inl e
                 | Inr blocks \<Rightarrow>
                     Inr (py_join [LF]
                       ([''## Professional Experience'', '''', ''----'', [LF]] @ concat blocks)))))"

text \<open>\<^verbatim>\<open>render_projects\<close> (lines 123-151).\<close>

definition project_heading :: "dict \<Rightarrow> string list" where
  "project_heading p =
     (let name = md_escape (py_str (dget_default p ''name'' (YStr '''')));
          dates = md_escape (py_str (dget_default p ''dates'' (YStr '''')))
      in [py_strip (''**'' @ name @ ''** ('' @ dates @ '')''), ''''])"

definition render_project ::
  "string set \<Rightarrow> string set \<Rightarrow> string \<Rightarrow> yaml \<Rightarrow> py_error + string list" where
  "render_project include exclude mode p =
     (case p of
        YDict pd \<Rightarrow>
          (case entry_bullets include exclude mode pd of
             Inl e \<Rightarrow> Inl e
           | Inr kept \<Rightarrow> Inr (project_heading pd @ bullet_lines kept @ ['''']))
      | _ \<Rightarrow> Inl AttributeError)"

definition render_projects ::
  "dict \<Rightarrow> string set \<Rightarrow> string set \<Rightarrow> string \<Rightarrow> py_error + string" where
  "render_projects data include exclude mode =
     (let projects = or_empty (dget data ''projects'') in
      if \<not> truthy projects then Inr ''''
      else (case py_iter projects of
              Inl e \<Rightarrow> Inl e
            | Inr ps \<Rightarrow>
                (case map_res (render_project include exclude mode) ps of
                   Inl e \<Rightarrow> Inl e
                 | Inr blocks \<Rightarrow>
                     Inr (py_join [LF] ([''## Projects'', '''', ''----'', [LF]] @ concat blocks)))))"

text \<open>\<^verbatim>\<open>render_education\<close> (lines 154-166).\<close>

definition education_line :: "yaml \<Rightarrow> py_error + string" where
  "education_line e =
     (case e of
        YDict ed \<Rightarrow>
          (let school = md_escape (py_str (dget_default ed ''school'' (YStr '''')));
               detail = md_escape (py_str (dget_default ed ''detail'' (YStr '''')));
               year = md_escape (py_str (dget_default ed ''year'' (YStr '''')));
               bits = filter (\<lambda>b. b \<noteq> []) [school, detail, year]
           in Inr (''- '' @ py_join '', '' bits))
      | _ \<Rightarrow> Inl AttributeError)"

definition render_education :: "dict \<Rightarrow> py_error + string" where
  "render_education data =
     (let edu = or_empty (dget data ''education'') in
      if \<not> truthy edu then Inr ''''
      else (case py_iter edu of
              Inl e \<Rightarrow> Inl e
            | Inr es \<Rightarrow>
                (case map_res education_line es of
                   Inl e \<Rightarrow> Inl e
                 | Inr ls \<Rightarrow> Inr (py_join [LF] ([''## Education'', '''', ''----'', [LF]] @ ls @ [''''])))))"

section \<open>Assembly\<close>

text \<open>
  \<^verbatim>\<open>build_md\<close> (lines 169-178). The six renderers run in order, so the first error is
  the one raised; \<open>assemble\<close> is the expression of line 178.
\<close>

definition assemble :: "string list \<Rightarrow> string" where
  "assemble parts = py_strip (py_join [LF] (filter (\<lambda>p. p \<noteq> []) parts)) @ [LF]"

definition build_md ::
  "dict \<Rightarrow> string set \<Rightarrow> string set \<Rightarrow> string \<Rightarrow> py_error + string" where
  "build_md data include exclude mode =
     (case render_header data of Inl e \<Rightarrow> Inl e | Inr h \<Rightarrow>
      (case render_summary data of Inl e \<Rightarrow> Inl e | Inr s \<Rightarrow>
       (case render_skills data of Inl e \<Rightarrow> Inl e | Inr k \<Rightarrow>
        (case render_experience data include exclude mode of Inl e \<Rightarrow> Inl e | Inr x \<Rightarrow>
         (case render_projects data include exclude mode of Inl e \<Rightarrow> Inl e | Inr p \<Rightarrow>
          (case render_education data of Inl e \<Rightarrow> Inl e | Inr d \<Rightarrow>
             Inr (assemble [h, s, k, x, p, d])))))))"

section \<open>The command line\<close>









section \<open>Vocabulary of the properties\<close>





text \<open>
  \<open>occurs_in_order ps s\<close>: the texts \<open>ps\<close> occur in \<open>s\<close> one after the other, without
  overlap. \<open>find_after p s\<close> is what follows the first occurrence of \<open>p\<close> in \<open>s\<close>.
\<close>

fun find_after :: "string \<Rightarrow> string \<Rightarrow> string option" where
  "find_after p [] = (if p = [] then Some [] else None)"
| "find_after p (c # s) =
     (if prefix p (c # s) then Some (drop (length p) (c # s)) else find_after p s)"

fun occurs_in_order :: "string list \<Rightarrow> string \<Rightarrow> bool" where
  "occurs_in_order [] s = True"
| "occurs_in_order (p # ps) s =
     (case find_after p s of None \<Rightarrow> False | Some r \<Rightarrow> occurs_in_order ps r)"






section \<open>Properties of the tag filter\<close>

text \<open>
  Claim C1. Exclude always wins: when the bullet's tags meet the exclude set, the bullet is
  rejected, whatever the include set and the mode are.
\<close>

theorem exclude_always_wins:
  "bullet_tags \<inter> exclude \<noteq> {} \<Longrightarrow> bullet_included bullet_tags include exclude mode = Inr False"
  by (auto simp: bullet_included_def)

theorem exclude_always_wins_witness:
  "{''java'', ''aws''} \<inter> {''aws''} \<noteq> ({} :: string set) \<and>
   bullet_included {''java'', ''aws''} {''java''} {''aws''} ''any'' = Inr False"
proof -
  have h: "{''java'', ''aws''} \<inter> {''aws''} \<noteq> ({} :: string set)" by simp
  show ?thesis using h exclude_always_wins [OF h, of "{''java''}" "''any''"] by simp
qed

text \<open>
  Claim C2. For a bullet that no exclude tag hits and a non-empty include set: in mode
  \<open>any\<close> the bullet is accepted exactly when its tags meet the include set, in mode
  \<open>all\<close> exactly when every include tag is among its tags.
\<close>

theorem include_any_all:
  "bullet_tags \<inter> exclude = {} \<Longrightarrow> include \<noteq> {} \<Longrightarrow>
     bullet_included bullet_tags include exclude ''any'' = Inr (bullet_tags \<inter> include \<noteq> {}) \<and>
     bullet_included bullet_tags include exclude ''all'' = Inr (include \<subseteq> bullet_tags)"
  by (simp add: bullet_included_def)

theorem include_any_all_witness:
  "{''java'', ''aws''} \<inter> {''php''} = ({} :: string set) \<and> {''java'', ''sql''} \<noteq> ({} :: string set) \<and>
   bullet_included {''java'', ''aws''} {''java'', ''sql''} {''php''} ''any'' = Inr True \<and>
   bullet_included {''java'', ''aws''} {''java'', ''sql''} {''php''} ''all'' = Inr False"
proof -
  have h1: "{''java'', ''aws''} \<inter> {''php''} = ({} :: string set)" by simp
  have h2: "{''java'', ''sql''} \<noteq> ({} :: string set)" by simp
  show ?thesis using h1 h2 include_any_all [OF h1 h2] by simp
qed

text \<open>
  Claim C3. With an empty include set every bullet that no exclude tag hits is accepted,
  in every mode (the mode is not even inspected).
\<close>

theorem empty_include_accepts:
  "bullet_tags \<inter> exclude = {} \<Longrightarrow> bullet_included bullet_tags {} exclude mode = Inr True"
  by (simp add: bullet_included_def)

theorem empty_include_accepts_witness:
  "{''java''} \<inter> {''php''} = ({} :: string set) \<and>
   bullet_included {''java''} {} {''php''} ''neither'' = Inr True"
proof -
  have h: "{''java''} \<inter> {''php''} = ({} :: string set)" by simp
  show ?thesis using h empty_include_accepts [OF h, of "''neither''"] by simp
qed

section \<open>Rendering a well-formed document returns\<close>














section \<open>Tags\<close>







section \<open>The command line and the output file\<close>



section \<open>Trimming and joining\<close>


lemma py_strip_keeps_head:
  assumes "\<not> is_space c"
  shows "\<exists>r. py_strip (c # s) = c # r"
proof -
  have "\<exists>ys. dropWhile is_space (rev s @ [c]) = ys @ [c]"
    using assms by (simp add: dropWhile_append)
  then obtain ys where "dropWhile is_space (rev s @ [c]) = ys @ [c]" ..
  then have "py_strip (c # s) = c # rev ys"
    using assms by (simp add: py_strip_def)
  then show ?thesis ..
qed


lemma hash_not_space: "\<not> is_space (CHR ''#'')"
  by (simp add: is_space_def)

lemma render_header_hash:
  assumes "render_header data = Inr h"
  shows "\<exists>r. h = CHR ''#'' # r"
proof (cases "md_escape_any (dget_default data ''name'' (YStr ''''))")
  case (Inl e)
  then show ?thesis using assms by (simp add: render_header_def)
next
  case (Inr name)
  obtain r where "py_strip (''# '' @ name) = CHR ''#'' # r"
    using py_strip_keeps_head [OF hash_not_space] by fastforce
  then show ?thesis using assms Inr by (auto simp: render_header_def Let_def)
qed



section \<open>Empty sections\<close>

lemma falsy_sections:
  "\<not> truthy (dget data ''summary'') \<Longrightarrow> render_summary data = Inr ''''"
  "\<not> truthy (dget data ''skills'') \<Longrightarrow> render_skills data = Inr ''''"
  "\<not> truthy (dget data ''experience'') \<Longrightarrow> render_experience data include exclude mode = Inr ''''"
  "\<not> truthy (dget data ''projects'') \<Longrightarrow> render_projects data include exclude mode = Inr ''''"
  "\<not> truthy (dget data ''education'') \<Longrightarrow> render_education data = Inr ''''"
  by (simp_all add: render_summary_def render_skills_def render_experience_def
        render_projects_def render_education_def or_empty_def)

lemma assemble_drops_empty: "assemble (before @ '''' # after) = assemble (before @ after)"
  by (simp add: assemble_def)

text \<open>
  Claim C7, as stated, counts the header among the renderers that return the empty
  string. For the empty document, where every field of the header is missing,
  \<open>render_header\<close> returns a heading line and a rule, and they are in the output.
\<close>

theorem render_header_empty_document_counterexample:
  "render_header [] = Inr (''#'' @ [LF, LF] @ ''----'' @ [LF, LF, LF]) \<and>
   render_header [] \<noteq> Inr '''' \<and>
   build_md [] {} {} ''any'' = Inr (''#'' @ [LF, LF] @ ''----'' @ [LF])"
  by code_simp

text \<open>
  Claim C7, amended. The summary, skills, experience, projects and education renderers
  return the empty string when the field they read is missing or empty (any value Python
  counts as false); an empty string among the rendered sections adds nothing to the
  assembled output, and a document with none of the five fields renders as its trimmed
  header alone. The header renderer never returns the empty string.
\<close>

theorem empty_sections_omitted:
  "(\<not> truthy (dget data ''summary'') \<longrightarrow> render_summary data = Inr '''') \<and>
   (\<not> truthy (dget data ''skills'') \<longrightarrow> render_skills data = Inr '''') \<and>
   (\<not> truthy (dget data ''experience'') \<longrightarrow>
      render_experience data include exclude mode = Inr '''') \<and>
   (\<not> truthy (dget data ''projects'') \<longrightarrow>
      render_projects data include exclude mode = Inr '''') \<and>
   (\<not> truthy (dget data ''education'') \<longrightarrow> render_education data = Inr '''') \<and>
   assemble (before @ '''' # after) = assemble (before @ after) \<and>
   ((\<forall>k \<in> set [''summary'', ''skills'', ''experience'', ''projects'', ''education''].
        \<not> truthy (dget data k)) \<longrightarrow>
      build_md data include exclude mode =
        (case render_header data of Inl e \<Rightarrow> Inl e | Inr h \<Rightarrow> Inr (py_strip h @ [LF]))) \<and>
   render_header data \<noteq> Inr ''''"
proof -
  have "build_md data include exclude mode =
          (case render_header data of Inl e \<Rightarrow> Inl e | Inr h \<Rightarrow> Inr (py_strip h @ [LF]))"
    if "\<forall>k \<in> set [''summary'', ''skills'', ''experience'', ''projects'', ''education''].
          \<not> truthy (dget data k)"
    using that by (simp add: build_md_def falsy_sections assemble_def split: sum.splits)
  moreover have "render_header data \<noteq> Inr ''''"
    using render_header_hash [of data "''''"] by auto
  ultimately show ?thesis
    by (simp add: falsy_sections assemble_drops_empty)
qed

theorem empty_sections_omitted_witness:
  "render_summary [(''name'', YStr ''N''), (''skills'', YList [])] = Inr '''' \<and>
   render_skills [(''name'', YStr ''N''), (''skills'', YList [])] = Inr '''' \<and>
   render_experience [(''name'', YStr ''N''), (''skills'', YList [])] {} {} ''any'' = Inr '''' \<and>
   render_projects [(''name'', YStr ''N''), (''skills'', YList [])] {} {} ''any'' = Inr '''' \<and>
   render_education [(''name'', YStr ''N''), (''skills'', YList [])] = Inr '''' \<and>
   build_md [(''name'', YStr ''N''), (''skills'', YList [])] {} {} ''any''
     = Inr (''# N'' @ [LF, LF] @ ''----'' @ [LF])"
proof -
  have f: "\<not> truthy (dget [(''name'', YStr ''N''), (''skills'', YList [])] ''summary'')"
     "\<not> truthy (dget [(''name'', YStr ''N''), (''skills'', YList [])] ''skills'')"
     "\<not> truthy (dget [(''name'', YStr ''N''), (''skills'', YList [])] ''experience'')"
     "\<not> truthy (dget [(''name'', YStr ''N''), (''skills'', YList [])] ''projects'')"
     "\<not> truthy (dget [(''name'', YStr ''N''), (''skills'', YList [])] ''education'')"
    by (simp_all add: dget_def)
  have h: "render_header [(''name'', YStr ''N''), (''skills'', YList [])]
             = Inr (''# N'' @ [LF, LF] @ ''----'' @ [LF, LF, LF])"
    by code_simp
  have s: "py_strip (''# N'' @ [LF, LF] @ ''----'' @ [LF, LF, LF]) = ''# N'' @ [LF, LF] @ ''----''"
    by code_simp
  show ?thesis
    using f h s
      empty_sections_omitted [of "[(''name'', YStr ''N''), (''skills'', YList [])]" "{}" "{}" "''any''" "[]" "[]"]
    by simp
qed

section \<open>Assembly of the sections\<close>



section \<open>Bullets of a role or project\<close>















section \<open>Texts occurring in order\<close>


lemma find_after_prefix: "prefix p s \<Longrightarrow> find_after p s = Some (drop (length p) s)"
  by (cases s) auto

lemma find_after_decomp: "find_after p s = Some r \<Longrightarrow> \<exists>a. s = a @ p @ r"
proof (induction s)
  case Nil
  then show ?case by (simp split: if_splits)
next
  case (Cons c s)
  show ?case
  proof (cases "prefix p (c # s)")
    case True
    then obtain t where t: "c # s = p @ t" by (auto simp: prefix_def)
    have "r = drop (length p) (c # s)" using Cons.prems True by simp
    then have "r = t" unfolding t by simp
    then show ?thesis using t by (metis append_Nil)
  next
    case False
    then have "find_after p s = Some r" using Cons.prems by simp
    then obtain a where "s = a @ p @ r" using Cons.IH by blast
    then have "c # s = (c # a) @ p @ r" by simp
    then show ?thesis by blast
  qed
qed

lemma find_after_finds: "\<exists>r. find_after p (a @ p @ t) = Some r \<and> suffix t r"
proof (induction a)
  case Nil
  have "find_after p (p @ t) = Some t"
    by (simp add: find_after_prefix)
  then show ?case by simp
next
  case (Cons c a)
  show ?case
  proof (cases "prefix p (c # a @ p @ t)")
    case True
    have "drop (length p) (u @ t) = drop (length p) u @ t" if "length p \<le> length u" for u
      using that by simp
    from this [of "c # a @ p"] have "suffix t (drop (length p) (c # a @ p @ t))"
      by (simp add: suffix_def)
    then show ?thesis using True by simp
  next
    case False
    then show ?thesis using Cons.IH by simp
  qed
qed

lemma occurs_suffix_mono:
  "occurs_in_order ps s \<Longrightarrow> suffix s t \<Longrightarrow> occurs_in_order ps t"
proof (induction ps arbitrary: s t)
  case Nil
  show ?case by simp
next
  case (Cons p ps)
  from Cons.prems(1) obtain r where r: "find_after p s = Some r" and o: "occurs_in_order ps r"
    by (auto split: option.splits)
  from find_after_decomp [OF r] obtain a where "s = a @ p @ r" ..
  moreover from Cons.prems(2) obtain b where "t = b @ s" by (auto simp: suffix_def)
  ultimately have "t = (b @ a) @ p @ r" by simp
  then obtain r' where "find_after p t = Some r'" and "suffix r r'"
    using find_after_finds [of p "b @ a" r] by auto
  then show ?case using Cons.IH [OF o] by simp
qed

lemma occurs_Cons_intro:
  "occurs_in_order ps t \<Longrightarrow> occurs_in_order (p # ps) (a @ p @ t)"
  using find_after_finds [of p a t] occurs_suffix_mono by auto

lemma occurs_in_order_Cons_iff:
  "occurs_in_order (p # ps) s = (\<exists>a t. s = a @ p @ t \<and> occurs_in_order ps t)"
proof
  assume "occurs_in_order (p # ps) s"
  then obtain r where r: "find_after p s = Some r" and o: "occurs_in_order ps r"
    by (auto split: option.splits)
  from find_after_decomp [OF r] o show "\<exists>a t. s = a @ p @ t \<and> occurs_in_order ps t"
    by blast
next
  assume "\<exists>a t. s = a @ p @ t \<and> occurs_in_order ps t"
  then show "occurs_in_order (p # ps) s"
    using occurs_Cons_intro by blast
qed











section \<open>Rendering without a filter\<close>
























end
